theory Spec2Isabelle
  imports Main "HOL-Library.Word" "HOL-Library.Sublist"
begin

section \<open>EchoVerse: the narration pipeline and the session history of app.py\<close>

text \<open>
  The program is one Streamlit script. Its two adapters, \<open>rewrite_text_with_tone\<close> and
  \<open>convert_text_to_speech\<close>, wrap a text generation model and the gTTS speech service;
  the handler of the "Generate Audiobook" button runs them in sequence and inserts a
  record at the head of \<open>st.session_state.history\<close>.

  The model and the speech service are outside the program, so they are parameters of the
  embedding (\<open>services\<close>). Everything the script does to the page or to those services is
  written to a trace of events, returned next to the value; the history list is passed in
  and returned.
\<close>

subsection \<open>Python strings\<close>

text \<open>
  A Python \<open>str\<close> is a sequence of code points. It is modelled as a \<open>string\<close> in which
  every \<open>char\<close> stands for one code point below 256. \<open>isspace\<close> lists the code points
  below 256 that \<open>str.strip()\<close> removes: U+0009 to U+000D, U+001C to U+001F, U+0020, U+0085
  and U+00A0.
\<close>

definition isspace :: "char \<Rightarrow> bool" where
  "isspace c \<longleftrightarrow> c \<in> set [CHR 0x09, CHR 0x0A, CHR 0x0B, CHR 0x0C, CHR 0x0D,
                          CHR 0x1C, CHR 0x1D, CHR 0x1E, CHR 0x1F, CHR 0x20,
                          CHR 0x85, CHR 0xA0]"

definition strip :: "string \<Rightarrow> string" where
  "strip s = rev (dropWhile isspace (rev (dropWhile isspace s)))"

text \<open>
  \<open>str.lower()\<close> on code points below 256: the upper-case letters are A to Z and U+00C0 to
  U+00DE without the multiplication sign U+00D7; each has its lower-case form 32 places up.
\<close>

definition lower_char :: "char \<Rightarrow> char" where
  "lower_char c =
     (let n = (of_char c :: nat)
      in if (65 \<le> n \<and> n \<le> 90) \<or> (192 \<le> n \<and> n \<le> 222 \<and> n \<noteq> 215)
         then char_of (n + 32) else c)"

definition lower :: "string \<Rightarrow> string" where
  "lower s = map lower_char s"

subsection \<open>Exceptions, the external services and the trace\<close>

text \<open>
  The exceptions that reach the two \<open>except Exception\<close> clauses: a missing dictionary key,
  an index into an empty list, and whatever a library call raises (kept with its message).
\<close>

datatype exn = KeyError string | IndexError | LibraryError string

type_synonym byte = "8 word"

record gen_config =
  max_length :: nat
  num_beams :: nat
  early_stopping :: bool

text \<open>
  The loaded pipeline object is called with a prompt and keyword arguments; it raises or
  returns a list of dictionaries.
\<close>

type_synonym rewriter = "string \<Rightarrow> gen_config \<Rightarrow> exn + (string \<rightharpoonup> string) list"

record gtts_args =
  gtts_text :: string
  gtts_lang :: string
  gtts_tld :: string
  gtts_slow :: bool

text \<open>
  \<open>gTTS(...)\<close> raises or returns an object; the object's \<open>write_to_fp\<close> raises or writes
  the encoded audio to the file object it is given.
\<close>

type_synonym tts = "exn + byte list"

record services =
  load_rewriting_model :: "exn + rewriter"
  gTTS :: "gtts_args \<Rightarrow> exn + tts"

text \<open>
  The trace. \<open>Call_rewrite_text_with_tone\<close> and \<open>Call_convert_text_to_speech\<close> mark the
  entry into the two adapters with their arguments; \<open>Model_load\<close>, \<open>Model_call\<close>,
  \<open>Gtts_new\<close> and \<open>Gtts_write_to_fp\<close> are the calls of \<open>load_rewriting_model()\<close>, of the
  loaded pipeline, of the \<open>gTTS\<close> constructor and of \<open>write_to_fp\<close>; the \<open>St_\<close> events are
  the Streamlit calls of the same name. \<open>St_error\<close> keeps the fixed start of the message
  and the exception that the f-string formats after it.
\<close>

datatype event =
    Call_rewrite_text_with_tone string string
  | Call_convert_text_to_speech string string
  | Model_load
  | Model_call string gen_config
  | Gtts_new gtts_args
  | Gtts_write_to_fp
  | St_spinner string
  | St_warning string
  | St_error string exn
  | St_success string
  | St_header string
  | St_subheader string
  | St_text_area string string
  | St_audio "byte list" string
  | St_download_button string "byte list" string string

subsection \<open>io.BytesIO\<close>

record bytes_io =
  buffer :: "byte list"
  pos :: nat

definition BytesIO :: bytes_io where
  "BytesIO = \<lparr>buffer = [], pos = 0\<rparr>"

definition bio_write :: "bytes_io \<Rightarrow> byte list \<Rightarrow> bytes_io" where
  "bio_write fp bs =
     \<lparr>buffer = take (pos fp) (buffer fp) @ replicate (pos fp - length (buffer fp)) 0
                @ bs @ drop (pos fp + length bs) (buffer fp),
      pos = pos fp + length bs\<rparr>"

definition bio_seek :: "bytes_io \<Rightarrow> nat \<Rightarrow> bytes_io" where
  "bio_seek fp n = fp\<lparr>pos := n\<rparr>"

definition bio_read :: "bytes_io \<Rightarrow> byte list" where
  "bio_read fp = drop (pos fp) (buffer fp)"

subsection \<open>The rewrite adapter\<close>

definition rewrite_prompt :: "string \<Rightarrow> string \<Rightarrow> string" where
  "rewrite_prompt txt tn = ''Rewrite the following text in a '' @ lower tn @ '' tone: '' @ txt"

definition rewrite_config :: gen_config where
  "rewrite_config = \<lparr>max_length = 300, num_beams = 4, early_stopping = True\<rparr>"

text \<open>The body of the \<open>try\<close> block: its value or the exception it stops at, and the trace.\<close>

definition rewrite_try :: "services \<Rightarrow> string \<Rightarrow> string \<Rightarrow> (exn + string) \<times> event list" where
  "rewrite_try srv txt tn =
     (let prompt = rewrite_prompt txt tn in
      case load_rewriting_model srv of
        Inl e \<Rightarrow> (Inl e, [Model_load])
      | Inr rewriter \<Rightarrow>
          (case rewriter prompt rewrite_config of
             Inl e \<Rightarrow> (Inl e, [Model_load, Model_call prompt rewrite_config])
           | Inr result \<Rightarrow>
               (case result of
                  [] \<Rightarrow> (Inl IndexError, [Model_load, Model_call prompt rewrite_config])
                | d # _ \<Rightarrow>
                    (case d ''generated_text'' of
                       None \<Rightarrow> (Inl (KeyError ''generated_text''),
                                [Model_load, Model_call prompt rewrite_config])
                     | Some g \<Rightarrow> (Inr (strip g),
                                [Model_load, Model_call prompt rewrite_config])))))"

definition rewrite_text_with_tone :: "services \<Rightarrow> string \<Rightarrow> string \<Rightarrow> string option \<times> event list" where
  "rewrite_text_with_tone srv txt tn =
     (case rewrite_try srv txt tn of
        (Inr r, evs) \<Rightarrow> (Some r, Call_rewrite_text_with_tone txt tn # evs)
      | (Inl e, evs) \<Rightarrow>
          (None, Call_rewrite_text_with_tone txt tn # evs
                   @ [St_error ''Error during tone rewriting: '' e]))"

subsection \<open>The synthesis adapter\<close>

definition tld_map :: "string \<rightharpoonup> string" where
  "tld_map = [''US English'' \<mapsto> ''com'',
              ''UK English'' \<mapsto> ''co.uk'',
              ''Australian English'' \<mapsto> ''com.au'']"

definition convert_try :: "services \<Rightarrow> string \<Rightarrow> string \<Rightarrow> (exn + byte list) \<times> event list" where
  "convert_try srv txt acc =
     (case tld_map acc of
        None \<Rightarrow> (Inl (KeyError acc), [])
      | Some code \<Rightarrow>
          (let args = \<lparr>gtts_text = txt, gtts_lang = ''en'', gtts_tld = code, gtts_slow = False\<rparr> in
           case gTTS srv args of
             Inl e \<Rightarrow> (Inl e, [Gtts_new args])
           | Inr tts \<Rightarrow>
               (case tts of
                  Inl e \<Rightarrow> (Inl e, [Gtts_new args, Gtts_write_to_fp])
                | Inr bs \<Rightarrow>
                    (let audio_fp = bio_write BytesIO bs;
                         audio_fp = bio_seek audio_fp 0
                     in (Inr (bio_read audio_fp), [Gtts_new args, Gtts_write_to_fp])))))"

definition convert_text_to_speech :: "services \<Rightarrow> string \<Rightarrow> string \<Rightarrow> byte list option \<times> event list" where
  "convert_text_to_speech srv txt acc =
     (case convert_try srv txt acc of
        (Inr r, evs) \<Rightarrow> (Some r, Call_convert_text_to_speech txt acc # evs)
      | (Inl e, evs) \<Rightarrow>
          (None, Call_convert_text_to_speech txt acc # evs
                   @ [St_error ''Error during audio generation: '' e]))"

subsection \<open>The session history and the button handler\<close>

record narration =
  original :: string
  rewritten :: string
  tone :: string
  accent :: string
  audio :: "byte list"

record inputs =
  text_input :: string
  selected_tone :: string
  selected_accent :: string

text \<open>The options of the two select boxes.\<close>

definition tone_options :: "string list" where
  "tone_options = [''Neutral'', ''Suspenseful'', ''Inspiring'']"

definition accent_options :: "string list" where
  "accent_options = [''US English'', ''UK English'', ''Australian English'']"

text \<open>
  The body of \<open>if st.button("Generate Audiobook")\<close>. \<open>if rewritten_text\<close> and
  \<open>if audio_data\<close> are Python truth tests: \<open>None\<close>, the empty string and the empty bytes
  object are all false.
\<close>

definition generate_audiobook ::
  "services \<Rightarrow> inputs \<Rightarrow> narration list \<Rightarrow> narration list \<times> event list" where
  "generate_audiobook srv inp history =
     (if strip (text_input inp) = [] then
        (history, [St_warning ''Please provide some text to generate the audiobook.''])
      else
        (case rewrite_text_with_tone srv (text_input inp) (selected_tone inp) of
           (rewritten_text, ev1) \<Rightarrow>
             (let tr1 = St_spinner ''Rewriting text... (This may take a moment on first run)'' # ev1 in
              case rewritten_text of
                None \<Rightarrow> (history, tr1)
              | Some rw \<Rightarrow>
                  if rw = [] then (history, tr1)
                  else
                    (case convert_text_to_speech srv rw (selected_accent inp) of
                       (audio_data, ev2) \<Rightarrow>
                         (let tr2 = tr1 @ St_spinner ''Synthesizing audio...'' # ev2 in
                          case audio_data of
                            None \<Rightarrow> (history, tr2)
                          | Some au \<Rightarrow>
                              if au = [] then (history, tr2)
                              else
                                (\<lparr>original = text_input inp, rewritten = rw,
                                  tone = selected_tone inp, accent = selected_accent inp,
                                  audio = au\<rparr> # history,
                                 tr2 @ [St_success ''Audiobook generated successfully!'']))))))"

subsection \<open>Showing the latest narration\<close>

definition download_file_name :: "narration \<Rightarrow> string" where
  "download_file_name latest = ''EchoVerse_'' @ tone latest @ ''_'' @ accent latest @ ''.mp3''"

text \<open>The block under \<open>if st.session_state.history\<close>; \<open>latest\<close> is \<open>history[0]\<close>.\<close>

definition display_latest :: "narration list \<Rightarrow> event list" where
  "display_latest history =
     (case history of
        [] \<Rightarrow> []
      | latest # _ \<Rightarrow>
          [St_header ''Your Generated Audiobook'',
           St_subheader ''Original vs. Rewritten Text'',
           St_text_area ''Original Text'' (original latest),
           St_text_area ''Rewritten Text'' (rewritten latest),
           St_subheader ''Listen to Your Audiobook'',
           St_audio (audio latest) ''audio/mp3'',
           St_download_button ''Download MP3'' (audio latest) (download_file_name latest)
             ''audio/mp3''])"

subsection \<open>Reading the trace\<close>

text \<open>The events that only a run of the synthesis adapter leaves in the trace.\<close>

fun synthesis_event :: "event \<Rightarrow> bool" where
  "synthesis_event (Call_convert_text_to_speech _ _) = True"
| "synthesis_event (Gtts_new _) = True"
| "synthesis_event Gtts_write_to_fp = True"
| "synthesis_event _ = False"

text \<open>The events that only a run of the rewrite adapter leaves in the trace.\<close>

fun rewrite_event :: "event \<Rightarrow> bool" where
  "rewrite_event (Call_rewrite_text_with_tone _ _) = True"
| "rewrite_event Model_load = True"
| "rewrite_event (Model_call _ _) = True"
| "rewrite_event _ = False"

fun gtts_call :: "event \<Rightarrow> gtts_args option" where
  "gtts_call (Gtts_new a) = Some a"
| "gtts_call _ = None"

fun model_call :: "event \<Rightarrow> (string \<times> gen_config) option" where
  "model_call (Model_call p c) = Some (p, c)"
| "model_call _ = None"

fun offered_file_name :: "event \<Rightarrow> string option" where
  "offered_file_name (St_download_button _ _ f _) = Some f"
| "offered_file_name _ = None"

subsection \<open>A session\<close>

text \<open>
  \<open>st.session_state.history\<close> starts as the empty list, and every press of the button runs
  the handler on the history the press before it left. The services are given anew with
  every press: the model and the speech service may answer differently each time.
\<close>

definition initial_history :: "narration list" where
  "initial_history = []"

fun session_runs :: "narration list \<Rightarrow> (services \<times> inputs) list \<Rightarrow> narration list" where
  "session_runs history [] = history"
| "session_runs history ((srv, inp) # rs) =
     session_runs (fst (generate_audiobook srv inp history)) rs"

text \<open>The record a run creates, if it creates one: what it leaves in an empty history.\<close>

definition run_record :: "services \<times> inputs \<Rightarrow> narration option" where
  "run_record r =
     (case fst (generate_audiobook (fst r) (snd r) []) of [] \<Rightarrow> None | x # _ \<Rightarrow> Some x)"

subsection \<open>Sample services and inputs\<close>

text \<open>
  Concrete services on which the definitions can be run: a model that answers every prompt
  with \<open>" Hi there "\<close>, a model that answers with blanks only, a model that fails to load,
  and a speech service whose \<open>write_to_fp\<close> raises. The inputs are those of the scenario of
  the specification ("Hello world", Neutral, US English) and a second request.
\<close>

definition scenario_rewriter :: rewriter where
  "scenario_rewriter = (\<lambda>p c. Inr [[''generated_text'' \<mapsto> '' Hi there '']])"

definition blank_rewriter :: rewriter where
  "blank_rewriter = (\<lambda>p c. Inr [[''generated_text'' \<mapsto> ''  '']])"

definition scenario_services :: services where
  "scenario_services =
     \<lparr>load_rewriting_model = Inr scenario_rewriter, gTTS = (\<lambda>a. Inr (Inr [73, 68, 51]))\<rparr>"

definition no_model_services :: services where
  "no_model_services =
     \<lparr>load_rewriting_model = Inl (LibraryError ''model not found''),
      gTTS = (\<lambda>a. Inr (Inr [73, 68, 51]))\<rparr>"

definition no_speech_services :: services where
  "no_speech_services =
     \<lparr>load_rewriting_model = Inr scenario_rewriter,
      gTTS = (\<lambda>a. Inr (Inl (LibraryError ''connection refused'')))\<rparr>"

definition blank_services :: services where
  "blank_services =
     \<lparr>load_rewriting_model = Inr blank_rewriter, gTTS = (\<lambda>a. Inr (Inr [73, 68, 51]))\<rparr>"

definition scenario_inputs :: inputs where
  "scenario_inputs =
     \<lparr>text_input = ''Hello world'', selected_tone = ''Neutral'',
      selected_accent = ''US English''\<rparr>"

definition second_inputs :: inputs where
  "second_inputs =
     \<lparr>text_input = ''Good night'', selected_tone = ''Suspenseful'',
      selected_accent = ''UK English''\<rparr>"

section \<open>Properties\<close>

subsection \<open>Strings and the byte buffer\<close>

text \<open>
  \<open>strip\<close> removes a run of white space at each end and nothing else, and what is left
  neither starts nor ends with white space.
\<close>

lemma strip_split:
  "\<exists>pre post. s = pre @ strip s @ post \<and> (\<forall>c\<in>set pre. isspace c) \<and> (\<forall>c\<in>set post. isspace c)"
proof -
  let ?a = "takeWhile isspace s" and ?m = "dropWhile isspace s"
  let ?b = "takeWhile isspace (rev ?m)"
  have "rev ?m = ?b @ dropWhile isspace (rev ?m)" by simp
  then have "?m = rev (dropWhile isspace (rev ?m)) @ rev ?b"
    by (metis rev_append rev_rev_ident)
  then have "s = ?a @ strip s @ rev ?b"
    by (metis strip_def takeWhile_dropWhile_id)
  moreover have "\<forall>c\<in>set ?a. isspace c" by (meson set_takeWhileD)
  moreover have "\<forall>c\<in>set (rev ?b). isspace c" by (metis set_rev set_takeWhileD)
  ultimately show ?thesis by blast
qed

lemma strip_ends:
  "strip s \<noteq> [] \<Longrightarrow> \<not> isspace (hd (strip s)) \<and> \<not> isspace (last (strip s))"
proof -
  assume ne: "strip s \<noteq> []"
  let ?m = "dropWhile isspace s"
  let ?r = "dropWhile isspace (rev ?m)"
  have r: "?r \<noteq> []" using ne by (simp add: strip_def)
  then have "\<not> isspace (hd ?r)" by (metis hd_dropWhile)
  then have l: "\<not> isspace (last (strip s))" using r by (simp add: strip_def last_rev)
  have m: "?m \<noteq> []"
  proof
    assume e: "?m = []"
    have "?r = []" unfolding e by simp
    with r show False by blast
  qed
  then have hm: "\<not> isspace (hd ?m)" by (metis hd_dropWhile)
  have "rev ?m = takeWhile isspace (rev ?m) @ ?r" by simp
  then have "?m = strip s @ rev (takeWhile isspace (rev ?m))"
    by (metis rev_append rev_rev_ident strip_def)
  then have "hd ?m = hd (strip s)" using ne by (metis hd_append2)
  with hm l show ?thesis by simp
qed

lemma strip_hello: "strip ''Hello world'' = ''Hello world''"
  by code_simp

lemma strip_good_night: "strip ''Good night'' = ''Good night''"
  by code_simp

lemma strip_hi: "strip '' Hi there '' = ''Hi there''"
  by code_simp

lemma strip_blank: "strip ''  '' = []"
  by code_simp

lemma strip_blank3: "strip ''   '' = []"
  by code_simp

lemma lower_neutral: "lower ''Neutral'' = ''neutral''"
  by code_simp

lemma prompt_hello:
  "rewrite_prompt ''Hello world'' ''Neutral'' =
     ''Rewrite the following text in a neutral tone: Hello world''"
  by code_simp

text \<open>Writing to a fresh buffer, rewinding and reading gives back what was written.\<close>

lemma bytes_io_roundtrip: "bio_read (bio_seek (bio_write BytesIO bs) 0) = bs"
  by (simp add: bio_read_def bio_seek_def bio_write_def BytesIO_def)

subsection \<open>The adapters\<close>

lemma rewrite_trace_no_synthesis:
  "filter synthesis_event (snd (rewrite_text_with_tone srv txt tn)) = []"
  by (simp add: rewrite_text_with_tone_def rewrite_try_def Let_def
      split: sum.splits list.splits option.splits)

lemma convert_trace_no_rewrite:
  "filter rewrite_event (snd (convert_text_to_speech srv txt acc)) = []"
  by (simp add: convert_text_to_speech_def convert_try_def Let_def
      split: sum.splits list.splits option.splits)

lemma tld_map_unknown: "acc \<notin> set accent_options \<Longrightarrow> tld_map acc = None"
  by (simp add: accent_options_def tld_map_def)

lemma dom_tld_map: "dom tld_map = set accent_options"
  by (auto simp: accent_options_def tld_map_def split: if_splits)

lemma scenario_rewrite:
  "fst (rewrite_text_with_tone scenario_services txt tn) = Some ''Hi there''"
  by (simp add: rewrite_text_with_tone_def rewrite_try_def scenario_services_def
      scenario_rewriter_def strip_hi)

lemma no_speech_rewrite:
  "fst (rewrite_text_with_tone no_speech_services txt tn) = Some ''Hi there''"
  by (simp add: rewrite_text_with_tone_def rewrite_try_def no_speech_services_def
      scenario_rewriter_def strip_hi)

lemma no_model_rewrite:
  "fst (rewrite_text_with_tone no_model_services txt tn) = None"
  by (simp add: rewrite_text_with_tone_def rewrite_try_def no_model_services_def)

lemma scenario_convert:
  "acc \<in> set accent_options \<Longrightarrow>
   fst (convert_text_to_speech scenario_services txt acc) = Some [73, 68, 51]"
  by (auto simp: convert_text_to_speech_def convert_try_def scenario_services_def
      accent_options_def tld_map_def bytes_io_roundtrip)

lemma no_speech_convert:
  "fst (convert_text_to_speech no_speech_services txt acc) = None"
  by (simp add: convert_text_to_speech_def convert_try_def no_speech_services_def
      split: option.splits)

subsection \<open>The handler and the session\<close>

text \<open>A run of the handler leaves the history as it was or puts one record in front of it.\<close>

lemma generate_cases:
  "fst (generate_audiobook srv inp h) = h \<or> (\<exists>r. fst (generate_audiobook srv inp h) = r # h)"
  by (auto simp: generate_audiobook_def Let_def split: prod.splits option.splits)

text \<open>What a run does to a history does not depend on the history.\<close>

lemma generate_on_history:
  "fst (generate_audiobook srv inp h) =
     (case run_record (srv, inp) of None \<Rightarrow> h | Some r \<Rightarrow> r # h)"
  by (simp add: run_record_def generate_audiobook_def Let_def
      split: prod.splits option.splits)

lemma session_runs_stack:
  "session_runs h runs = rev (List.map_filter run_record runs) @ h"
proof (induction runs arbitrary: h)
  case Nil
  show ?case by simp
next
  case (Cons r runs)
  obtain srv inp where r: "r = (srv, inp)" by (cases r)
  show ?case
    by (simp add: r Cons.IH generate_on_history split: option.splits)
qed

lemma map_filter_all_some:
  "\<forall>r\<in>set xs. f r \<noteq> None \<Longrightarrow> List.map_filter f xs = map (\<lambda>r. the (f r)) xs"
  by (induction xs) auto

lemma scenario_run:
  assumes "strip (text_input inp) \<noteq> []" and "selected_accent inp \<in> set accent_options"
  shows "fst (generate_audiobook scenario_services inp h) =
           \<lparr>original = text_input inp, rewritten = ''Hi there'', tone = selected_tone inp,
            accent = selected_accent inp, audio = [73, 68, 51]\<rparr> # h"
proof -
  obtain ev1 where a: "rewrite_text_with_tone scenario_services (text_input inp)
      (selected_tone inp) = (Some ''Hi there'', ev1)"
    using scenario_rewrite by (metis prod.collapse)
  obtain ev2 where b: "convert_text_to_speech scenario_services ''Hi there''
      (selected_accent inp) = (Some [73, 68, 51], ev2)"
    using scenario_convert [OF assms(2)] by (metis prod.collapse)
  show ?thesis using assms(1) a b by (simp add: generate_audiobook_def)
qed

lemma scenario_record:
  "run_record (scenario_services, scenario_inputs) =
     Some \<lparr>original = ''Hello world'', rewritten = ''Hi there'', tone = ''Neutral'',
           accent = ''US English'', audio = [73, 68, 51]\<rparr>"
proof -
  have "strip (text_input scenario_inputs) \<noteq> []"
    by (simp add: scenario_inputs_def strip_hello)
  moreover have "selected_accent scenario_inputs \<in> set accent_options"
    by (simp add: scenario_inputs_def accent_options_def)
  ultimately show ?thesis
    by (simp add: run_record_def scenario_run scenario_inputs_def)
qed

lemma second_record:
  "run_record (scenario_services, second_inputs) =
     Some \<lparr>original = ''Good night'', rewritten = ''Hi there'', tone = ''Suspenseful'',
           accent = ''UK English'', audio = [73, 68, 51]\<rparr>"
proof -
  have "strip (text_input second_inputs) \<noteq> []"
    by (simp add: second_inputs_def strip_good_night)
  moreover have "selected_accent second_inputs \<in> set accent_options"
    by (simp add: second_inputs_def accent_options_def)
  ultimately show ?thesis
    by (simp add: run_record_def scenario_run second_inputs_def)
qed

section \<open>The claims\<close>

text \<open>
  C1. When the trimmed input text is not empty, the rewrite adapter returns a usable (not
  empty) text and the synthesis adapter returns audio (a buffer that is not empty), the
  handler puts exactly one record in front of the history: it holds the original text, the
  rewritten text, the tone, the accent and the audio bytes, it is the new head, and the rest
  of the history is the old history. This holds for every tone and accent string, so for
  the three tones and the three accents of the select boxes.
\<close>

theorem success_prepends:
  assumes "strip (text_input inp) \<noteq> []"
    and "rewrite_text_with_tone srv (text_input inp) (selected_tone inp) = (Some rw, ev1)"
    and "rw \<noteq> []"
    and "convert_text_to_speech srv rw (selected_accent inp) = (Some au, ev2)"
    and "au \<noteq> []"
  shows "fst (generate_audiobook srv inp h) =
           \<lparr>original = text_input inp, rewritten = rw, tone = selected_tone inp,
            accent = selected_accent inp, audio = au\<rparr> # h"
  using assms by (simp add: generate_audiobook_def)

theorem success_prepends_witness:
  "strip (text_input scenario_inputs) \<noteq> [] \<and>
   selected_tone scenario_inputs \<in> set tone_options \<and>
   selected_accent scenario_inputs \<in> set accent_options \<and>
   fst (generate_audiobook scenario_services scenario_inputs []) =
     [\<lparr>original = ''Hello world'', rewritten = ''Hi there'', tone = ''Neutral'',
       accent = ''US English'', audio = [73, 68, 51]\<rparr>]"
proof -
  have a: "strip (text_input scenario_inputs) \<noteq> []"
    by (simp add: scenario_inputs_def strip_hello)
  have o: "selected_tone scenario_inputs \<in> set tone_options"
    "selected_accent scenario_inputs \<in> set accent_options"
    by (simp_all add: scenario_inputs_def tone_options_def accent_options_def)
  obtain ev1 where b: "rewrite_text_with_tone scenario_services (text_input scenario_inputs)
      (selected_tone scenario_inputs) = (Some ''Hi there'', ev1)"
    using scenario_rewrite by (metis prod.collapse)
  obtain ev2 where c: "convert_text_to_speech scenario_services ''Hi there''
      (selected_accent scenario_inputs) = (Some [73, 68, 51], ev2)"
    using scenario_convert [OF o(2)] by (metis prod.collapse)
  from success_prepends [OF a b _ c, of "[]"] a o show ?thesis
    by (simp add: scenario_inputs_def)
qed

text \<open>
  C2. The history is a stack, newest first. After any sequence of runs the history is the
  records of the runs that created one, latest first, in front of the history the session
  had before; so the old history is kept as a suffix, nothing in it removed or changed.
  When all \<open>N\<close> runs of a session are successful, the history has \<open>N\<close> entries, entry \<open>i\<close>
  is the record of run \<open>N - i\<close>: entry 0 that of the last run, entry \<open>N - 1\<close> that of the
  first.
\<close>

theorem history_is_stack:
  "session_runs h runs = rev (List.map_filter run_record runs) @ h \<and>
   suffix h (session_runs h runs) \<and>
   ((\<forall>r\<in>set runs. run_record r \<noteq> None) \<longrightarrow>
      length (session_runs initial_history runs) = length runs \<and>
      (\<forall>i<length runs.
         session_runs initial_history runs ! i =
           the (run_record (runs ! (length runs - 1 - i)))) \<and>
      (runs \<noteq> [] \<longrightarrow>
         session_runs initial_history runs ! 0 = the (run_record (last runs)) \<and>
         session_runs initial_history runs ! (length runs - 1) =
           the (run_record (hd runs))))"
proof -
  have a: "session_runs h runs = rev (List.map_filter run_record runs) @ h"
    by (rule session_runs_stack)
  then have b: "suffix h (session_runs h runs)"
    by (simp add: suffix_def)
  have c: "length (session_runs initial_history runs) = length runs \<and>
      (\<forall>i<length runs.
         session_runs initial_history runs ! i =
           the (run_record (runs ! (length runs - 1 - i)))) \<and>
      (runs \<noteq> [] \<longrightarrow>
         session_runs initial_history runs ! 0 = the (run_record (last runs)) \<and>
         session_runs initial_history runs ! (length runs - 1) =
           the (run_record (hd runs)))"
    if all: "\<forall>r\<in>set runs. run_record r \<noteq> None"
  proof -
    have e: "session_runs initial_history runs = rev (map (\<lambda>r. the (run_record r)) runs)"
      by (simp add: session_runs_stack initial_history_def map_filter_all_some [OF all])
    have l: "length (session_runs initial_history runs) = length runs"
      by (simp add: e)
    have i: "session_runs initial_history runs ! i =
        the (run_record (runs ! (length runs - 1 - i)))"
      if "i < length runs" for i
      using that by (simp add: e rev_nth)
    have "session_runs initial_history runs ! 0 = the (run_record (last runs)) \<and>
         session_runs initial_history runs ! (length runs - 1) = the (run_record (hd runs))"
      if ne: "runs \<noteq> []"
    proof -
      have "0 < length runs" using ne by simp
      then show ?thesis using ne i [of 0] i [of "length runs - 1"]
        by (simp add: last_conv_nth hd_conv_nth)
    qed
    with l i show ?thesis by blast
  qed
  from a b c show ?thesis by blast
qed

theorem history_is_stack_witness:
  "run_record (scenario_services, scenario_inputs) \<noteq> None \<and>
   run_record (scenario_services, second_inputs) \<noteq> None \<and>
   session_runs initial_history
     [(scenario_services, scenario_inputs), (scenario_services, second_inputs)] ! 0 =
     \<lparr>original = ''Good night'', rewritten = ''Hi there'', tone = ''Suspenseful'',
      accent = ''UK English'', audio = [73, 68, 51]\<rparr> \<and>
   session_runs initial_history
     [(scenario_services, scenario_inputs), (scenario_services, second_inputs)] ! 1 =
     \<lparr>original = ''Hello world'', rewritten = ''Hi there'', tone = ''Neutral'',
      accent = ''US English'', audio = [73, 68, 51]\<rparr>"
  using history_is_stack
    [of "[]" "[(scenario_services, scenario_inputs), (scenario_services, second_inputs)]"]
  by (simp add: scenario_record second_record)

text \<open>
  C3. When the rewrite adapter reports failure (it returns \<open>None\<close>), the run leaves the
  history as it was, and its trace holds no event of the synthesis adapter: neither the
  call of \<open>convert_text_to_speech\<close> nor a call of the speech service.
\<close>

theorem rewrite_failure_stops:
  assumes "fst (rewrite_text_with_tone srv (text_input inp) (selected_tone inp)) = None"
  shows "fst (generate_audiobook srv inp h) = h \<and>
         filter synthesis_event (snd (generate_audiobook srv inp h)) = []"
  using assms rewrite_trace_no_synthesis [of srv "text_input inp" "selected_tone inp"]
  by (auto simp: generate_audiobook_def Let_def split: prod.splits)

theorem rewrite_failure_stops_witness:
  "strip (text_input scenario_inputs) \<noteq> [] \<and>
   fst (rewrite_text_with_tone no_model_services (text_input scenario_inputs)
          (selected_tone scenario_inputs)) = None \<and>
   fst (generate_audiobook no_model_services scenario_inputs []) = [] \<and>
   filter synthesis_event (snd (generate_audiobook no_model_services scenario_inputs [])) = []"
  using rewrite_failure_stops [OF no_model_rewrite, of scenario_inputs "[]"] no_model_rewrite
  by (simp add: scenario_inputs_def strip_hello)

text \<open>
  C4. When the rewrite adapter has produced a usable text and the synthesis adapter reports
  failure (it returns \<open>None\<close>) or returns an empty buffer, the run creates no record: the
  history after the run is the history before it.
\<close>

theorem synthesis_failure_keeps_history:
  assumes "rewrite_text_with_tone srv (text_input inp) (selected_tone inp) = (Some rw, ev1)"
    and "rw \<noteq> []"
    and "fst (convert_text_to_speech srv rw (selected_accent inp)) = None \<or>
         fst (convert_text_to_speech srv rw (selected_accent inp)) = Some []"
  shows "fst (generate_audiobook srv inp h) = h"
  using assms by (auto simp: generate_audiobook_def Let_def split: prod.splits)

theorem synthesis_failure_keeps_history_witness:
  "strip (text_input scenario_inputs) \<noteq> [] \<and>
   fst (rewrite_text_with_tone no_speech_services (text_input scenario_inputs)
          (selected_tone scenario_inputs)) = Some ''Hi there'' \<and>
   fst (convert_text_to_speech no_speech_services ''Hi there''
          (selected_accent scenario_inputs)) = None \<and>
   fst (generate_audiobook no_speech_services scenario_inputs []) = []"
proof -
  obtain ev1 where a: "rewrite_text_with_tone no_speech_services (text_input scenario_inputs)
      (selected_tone scenario_inputs) = (Some ''Hi there'', ev1)"
    using no_speech_rewrite by (metis prod.collapse)
  have b: "fst (convert_text_to_speech no_speech_services ''Hi there''
      (selected_accent scenario_inputs)) = None"
    by (rule no_speech_convert)
  from synthesis_failure_keeps_history [OF a _ disjI1 [OF b], of "[]"] a b show ?thesis
    by (simp add: scenario_inputs_def strip_hello)
qed

text \<open>
  C5. When the input text is empty after trimming, whatever the tone and the accent, the
  run shows the warning and does nothing else: the history is unchanged and the trace is
  that one warning, so neither adapter was called.
\<close>

theorem empty_input_aborts:
  assumes "strip (text_input inp) = []"
  shows "generate_audiobook srv inp h =
           (h, [St_warning ''Please provide some text to generate the audiobook.'']) \<and>
         filter rewrite_event (snd (generate_audiobook srv inp h)) = [] \<and>
         filter synthesis_event (snd (generate_audiobook srv inp h)) = []"
  using assms by (simp add: generate_audiobook_def)

theorem empty_input_aborts_witness:
  "strip ''   '' = [] \<and>
   generate_audiobook scenario_services
     \<lparr>text_input = ''   '', selected_tone = ''Inspiring'',
      selected_accent = ''Australian English''\<rparr> [] =
     ([], [St_warning ''Please provide some text to generate the audiobook.''])"
  using empty_input_aborts
    [of "\<lparr>text_input = ''   '', selected_tone = ''Inspiring'',
          selected_accent = ''Australian English''\<rparr>" scenario_services "[]"]
  by (simp add: strip_blank3)

text \<open>
  C6. The table from accent to locale is the fixed one: US English gives \<open>com\<close>, UK English
  gives \<open>co.uk\<close>, Australian English gives \<open>com.au\<close>, and it has no other entry. For each
  of the three accents the synthesis adapter calls the speech service once, with the text,
  the language \<open>en\<close>, that locale and \<open>slow = False\<close>.
\<close>

theorem accent_locale_table:
  "tld_map ''US English'' = Some ''com'' \<and>
   tld_map ''UK English'' = Some ''co.uk'' \<and>
   tld_map ''Australian English'' = Some ''com.au'' \<and>
   dom tld_map = {''US English'', ''UK English'', ''Australian English''} \<and>
   (\<forall>acc\<in>set accent_options.
      List.map_filter gtts_call (snd (convert_text_to_speech srv txt acc)) =
        [\<lparr>gtts_text = txt, gtts_lang = ''en'', gtts_tld = the (tld_map acc),
          gtts_slow = False\<rparr>])"
proof -
  have t: "tld_map ''US English'' = Some ''com''" "tld_map ''UK English'' = Some ''co.uk''"
    "tld_map ''Australian English'' = Some ''com.au''"
    by (simp_all add: tld_map_def)
  have d: "dom tld_map = {''US English'', ''UK English'', ''Australian English''}"
    using dom_tld_map by (simp add: accent_options_def)
  have c: "List.map_filter gtts_call (snd (convert_text_to_speech srv txt acc)) =
        [\<lparr>gtts_text = txt, gtts_lang = ''en'', gtts_tld = code, gtts_slow = False\<rparr>]"
    if "tld_map acc = Some code" for acc code
    using that
    by (simp add: convert_text_to_speech_def convert_try_def Let_def split: sum.splits)
  have "\<forall>acc\<in>set accent_options.
      List.map_filter gtts_call (snd (convert_text_to_speech srv txt acc)) =
        [\<lparr>gtts_text = txt, gtts_lang = ''en'', gtts_tld = the (tld_map acc),
          gtts_slow = False\<rparr>]"
    using t c by (simp add: accent_options_def)
  with t d show ?thesis by blast
qed

theorem accent_locale_table_witness:
  "''UK English'' \<in> set accent_options \<and>
   List.map_filter gtts_call
     (snd (convert_text_to_speech scenario_services ''Hi there'' ''UK English'')) =
     [\<lparr>gtts_text = ''Hi there'', gtts_lang = ''en'', gtts_tld = ''co.uk'',
       gtts_slow = False\<rparr>]"
  using accent_locale_table [of scenario_services "''Hi there''"]
  by (simp add: accent_options_def)

text \<open>
  C7. For every history that is not empty, the one download button of the page offers the
  file name \<open>EchoVerse_\<close>, the tone of the head record, an underscore, its accent and
  \<open>.mp3\<close>; for the tone Suspenseful and the accent UK English that is
  \<open>EchoVerse_Suspenseful_UK English.mp3\<close>.
\<close>

theorem download_name:
  "List.map_filter offered_file_name (display_latest (latest # rest)) =
     [''EchoVerse_'' @ tone latest @ ''_'' @ accent latest @ ''.mp3''] \<and>
   (tone latest = ''Suspenseful'' \<and> accent latest = ''UK English'' \<longrightarrow>
      List.map_filter offered_file_name (display_latest (latest # rest)) =
        [''EchoVerse_Suspenseful_UK English.mp3''])"
  by (simp add: display_latest_def download_file_name_def)

theorem download_name_witness:
  "List.map_filter offered_file_name
     (display_latest
        [\<lparr>original = ''Good night'', rewritten = ''Hi there'', tone = ''Suspenseful'',
          accent = ''UK English'', audio = [73, 68, 51]\<rparr>]) =
     [''EchoVerse_Suspenseful_UK English.mp3'']"
  using download_name
    [of "\<lparr>original = ''Good night'', rewritten = ''Hi there'', tone = ''Suspenseful'',
          accent = ''UK English'', audio = [73, 68, 51]\<rparr>" "[]"]
  by simp

text \<open>
  C8. For every text and tone the prompt of the rewrite adapter is the instruction with the
  lower-cased tone and the text in it (for "Hello world" and Neutral it is
  \<open>Rewrite the following text in a neutral tone: Hello world\<close>). When the model loads, the
  adapter calls it once, with that prompt, \<open>max_length = 300\<close>, \<open>num_beams = 4\<close> and
  \<open>early_stopping = True\<close>; when the call returns a list whose first dictionary has
  \<open>generated_text\<close>, the adapter returns that text stripped.
\<close>

theorem rewrite_adapter_contract:
  "rewrite_prompt txt tn = ''Rewrite the following text in a '' @ lower tn @ '' tone: '' @ txt \<and>
   sublist (lower tn) (rewrite_prompt txt tn) \<and>
   sublist txt (rewrite_prompt txt tn) \<and>
   rewrite_prompt ''Hello world'' ''Neutral'' =
     ''Rewrite the following text in a neutral tone: Hello world'' \<and>
   (load_rewriting_model srv = Inr rewriter \<longrightarrow>
      List.map_filter model_call (snd (rewrite_text_with_tone srv txt tn)) =
        [(rewrite_prompt txt tn,
          \<lparr>max_length = 300, num_beams = 4, early_stopping = True\<rparr>)]) \<and>
   (load_rewriting_model srv = Inr rewriter \<and>
    rewriter (rewrite_prompt txt tn)
      \<lparr>max_length = 300, num_beams = 4, early_stopping = True\<rparr> = Inr (d # ds) \<and>
    d ''generated_text'' = Some g \<longrightarrow>
      fst (rewrite_text_with_tone srv txt tn) = Some (strip g))"
proof -
  have p: "rewrite_prompt txt tn =
      ''Rewrite the following text in a '' @ lower tn @ '' tone: '' @ txt"
    by (simp add: rewrite_prompt_def)
  have s1: "sublist (lower tn) (rewrite_prompt txt tn)"
    unfolding p sublist_def by blast
  have "rewrite_prompt txt tn =
      (''Rewrite the following text in a '' @ lower tn @ '' tone: '') @ txt @ []"
    by (simp add: rewrite_prompt_def)
  then have s2: "sublist txt (rewrite_prompt txt tn)"
    unfolding sublist_def by blast
  have m: "List.map_filter model_call (snd (rewrite_text_with_tone srv txt tn)) =
        [(rewrite_prompt txt tn, \<lparr>max_length = 300, num_beams = 4, early_stopping = True\<rparr>)]"
    if "load_rewriting_model srv = Inr rewriter"
    using that
    by (simp add: rewrite_text_with_tone_def rewrite_try_def rewrite_config_def Let_def
        split: sum.splits list.splits option.splits)
  have r: "fst (rewrite_text_with_tone srv txt tn) = Some (strip g)"
    if "load_rewriting_model srv = Inr rewriter"
      "rewriter (rewrite_prompt txt tn)
         \<lparr>max_length = 300, num_beams = 4, early_stopping = True\<rparr> = Inr (d # ds)"
      "d ''generated_text'' = Some g"
    using that
    by (simp add: rewrite_text_with_tone_def rewrite_try_def rewrite_config_def Let_def)
  from p s1 s2 prompt_hello m r show ?thesis by blast
qed

theorem rewrite_adapter_contract_witness:
  "load_rewriting_model scenario_services = Inr scenario_rewriter \<and>
   List.map_filter model_call
     (snd (rewrite_text_with_tone scenario_services ''Hello world'' ''Neutral'')) =
     [(''Rewrite the following text in a neutral tone: Hello world'',
       \<lparr>max_length = 300, num_beams = 4, early_stopping = True\<rparr>)] \<and>
   fst (rewrite_text_with_tone scenario_services ''Hello world'' ''Neutral'') =
     Some ''Hi there''"
proof -
  have a: "load_rewriting_model scenario_services = Inr scenario_rewriter"
    by (simp add: scenario_services_def)
  have b: "scenario_rewriter (rewrite_prompt ''Hello world'' ''Neutral'')
      \<lparr>max_length = 300, num_beams = 4, early_stopping = True\<rparr> =
      Inr ([''generated_text'' \<mapsto> '' Hi there ''] # [])"
    by (simp add: scenario_rewriter_def)
  have c: "[''generated_text'' \<mapsto> '' Hi there ''] ''generated_text'' = Some '' Hi there ''"
    by simp
  from rewrite_adapter_contract [of "''Hello world''" "''Neutral''" scenario_services
      scenario_rewriter "[''generated_text'' \<mapsto> '' Hi there '']" "[]" "'' Hi there ''"]
    a b c
  show ?thesis by (simp add: strip_hi lower_neutral)
qed

text \<open>
  C9. When the model's text is empty after stripping, the rewrite adapter returns the empty
  string, and the handler treats the run as a failed rewrite: the history is unchanged and
  the trace holds no event of the synthesis adapter.
\<close>

theorem empty_rewrite_is_failure:
  assumes "load_rewriting_model srv = Inr rewriter"
    and "rewriter (rewrite_prompt (text_input inp) (selected_tone inp)) rewrite_config =
           Inr (d # ds)"
    and "d ''generated_text'' = Some g"
    and "strip g = []"
  shows "fst (rewrite_text_with_tone srv (text_input inp) (selected_tone inp)) = Some [] \<and>
         fst (generate_audiobook srv inp h) = h \<and>
         filter synthesis_event (snd (generate_audiobook srv inp h)) = []"
proof -
  have a: "rewrite_text_with_tone srv (text_input inp) (selected_tone inp) =
      (Some [], [Call_rewrite_text_with_tone (text_input inp) (selected_tone inp), Model_load,
         Model_call (rewrite_prompt (text_input inp) (selected_tone inp)) rewrite_config])"
    using assms by (simp add: rewrite_text_with_tone_def rewrite_try_def Let_def)
  then show ?thesis
    by (simp add: generate_audiobook_def)
qed

theorem empty_rewrite_is_failure_witness:
  "strip (text_input scenario_inputs) \<noteq> [] \<and>
   load_rewriting_model blank_services = Inr blank_rewriter \<and>
   strip ''  '' = [] \<and>
   fst (rewrite_text_with_tone blank_services (text_input scenario_inputs)
          (selected_tone scenario_inputs)) = Some [] \<and>
   fst (generate_audiobook blank_services scenario_inputs []) = [] \<and>
   filter synthesis_event (snd (generate_audiobook blank_services scenario_inputs [])) = []"
proof -
  have a: "load_rewriting_model blank_services = Inr blank_rewriter"
    by (simp add: blank_services_def)
  have b: "blank_rewriter (rewrite_prompt (text_input scenario_inputs)
      (selected_tone scenario_inputs)) rewrite_config =
      Inr ([''generated_text'' \<mapsto> ''  ''] # [])"
    by (simp add: blank_rewriter_def)
  have c: "[''generated_text'' \<mapsto> ''  ''] ''generated_text'' = Some ''  ''"
    by simp
  from empty_rewrite_is_failure [OF a b c strip_blank, of "[]"] a strip_blank
  show ?thesis by (simp add: scenario_inputs_def strip_hello)
qed

text \<open>
  C10. For an accent that is none of the three labels of the table, the lookup error does
  not leave the synthesis adapter: the adapter shows the error message with the
  \<open>KeyError\<close>, returns \<open>None\<close> and never reaches the speech service; a run of the handler
  with such an accent leaves the history as it was.
\<close>

theorem unknown_accent_is_caught:
  assumes "acc \<notin> set accent_options"
  shows "convert_text_to_speech srv txt acc =
           (None, [Call_convert_text_to_speech txt acc,
                   St_error ''Error during audio generation: '' (KeyError acc)]) \<and>
         (selected_accent inp = acc \<longrightarrow> fst (generate_audiobook srv inp h) = h)"
proof -
  have c: "convert_text_to_speech srv t acc =
           (None, [Call_convert_text_to_speech t acc,
                   St_error ''Error during audio generation: '' (KeyError acc)])" for t
    using tld_map_unknown [OF assms]
    by (simp add: convert_text_to_speech_def convert_try_def)
  then have "selected_accent inp = acc \<Longrightarrow> fst (generate_audiobook srv inp h) = h"
    by (simp add: generate_audiobook_def Let_def split: prod.splits option.splits)
  with c show ?thesis by blast
qed

theorem unknown_accent_is_caught_witness:
  "''Indian English'' \<notin> set accent_options \<and>
   convert_text_to_speech scenario_services ''Hi there'' ''Indian English'' =
     (None, [Call_convert_text_to_speech ''Hi there'' ''Indian English'',
             St_error ''Error during audio generation: '' (KeyError ''Indian English'')]) \<and>
   fst (generate_audiobook scenario_services
          \<lparr>text_input = ''Hello world'', selected_tone = ''Neutral'',
           selected_accent = ''Indian English''\<rparr> []) = []"
proof -
  have a: "''Indian English'' \<notin> set accent_options"
    by (simp add: accent_options_def)
  from unknown_accent_is_caught [OF a, of scenario_services "''Hi there''"
      "\<lparr>text_input = ''Hello world'', selected_tone = ''Neutral'',
        selected_accent = ''Indian English''\<rparr>" "[]"] a
  show ?thesis by simp
qed

end
